theory Spec2Isabelle
  imports Complex_Main
begin

section \<open>Python values, exceptions and the process state\<close>

text \<open>
  The program is one Python script, \<^verbatim>\<open>autolysis.py\<close>.  Its functions are embedded as
  state transformers over the part of the world the script can touch: the files of the
  working directory and the lines printed to standard output.  A call either returns a
  value (\<open>Inr\<close>) or raises (\<open>Inl\<close>); \<^verbatim>\<open>sys.exit(n)\<close> raises \<open>SystemExit n\<close>, which an
  \<^verbatim>\<open>except Exception\<close> clause does not catch.
\<close>

datatype exn =
    SystemExit int
  | Exception string string  \<comment> \<open>class name and \<^verbatim>\<open>str(e)\<close> of any subclass of \<^verbatim>\<open>Exception\<close>\<close>

datatype pyval =
    PNone
  | PBool bool
  | PInt int
  | PFloat real
  | PStr string
  | PList "pyval list"
  | PDict "(string \<times> pyval) list"

record world =
  files :: "string \<rightharpoonup> string"
  stdout :: "string list"

type_synonym 'a result = "(exn + 'a) \<times> world"

text \<open>
  A Python \<^verbatim>\<open>str\<close> is represented by its UTF-8 encoding and a \<^verbatim>\<open>bytes\<close> value by
  itself, both as a \<open>string\<close>: every text is represented, an ASCII character by one
  \<open>char\<close> below 128 and any other character by a lead byte and its continuation bytes.
\<close>

definition is_ascii :: "char \<Rightarrow> bool" where
  "is_ascii c = (\<not> digit7 c)"

definition utf8_continuation :: "char \<Rightarrow> bool" where
  "utf8_continuation c = (digit7 c \<and> \<not> digit6 c)"

abbreviation nl :: string where
  "nl \<equiv> [CHR 0x0A]"

abbreviation quote :: string where
  "quote \<equiv> [CHR 0x27]"

definition print :: "string \<Rightarrow> world \<Rightarrow> world" where
  "print line w = w\<lparr>stdout := stdout w @ [line]\<rparr>"

definition isfile :: "world \<Rightarrow> string \<Rightarrow> bool" where
  "isfile w path = (files w path \<noteq> None)"

text \<open>\<^verbatim>\<open>open(path, "w")\<close> creates or truncates; \<^verbatim>\<open>f.write(s)\<close> appends to what the handle wrote.\<close>

definition open_w :: "string \<Rightarrow> world \<Rightarrow> world" where
  "open_w path w = w\<lparr>files := (files w)(path \<mapsto> [])\<rparr>"

definition fwrite :: "string \<Rightarrow> string \<Rightarrow> world \<Rightarrow> world" where
  "fwrite path s w =
     w\<lparr>files := (files w)(path \<mapsto> (case files w path of None \<Rightarrow> s | Some c \<Rightarrow> c @ s))\<rparr>"

definition bind :: "exn + 'a \<Rightarrow> ('a \<Rightarrow> exn + 'b) \<Rightarrow> exn + 'b" where
  "bind r f = (case r of Inl e \<Rightarrow> Inl e | Inr v \<Rightarrow> f v)"

subsection \<open>Subscripting and concatenation of Python values\<close>

text \<open>\<^verbatim>\<open>d.get(key, default)\<close> on a dict: the default is used only when the key is absent.\<close>

definition dict_get :: "(string \<times> pyval) list \<Rightarrow> string \<Rightarrow> pyval \<Rightarrow> pyval" where
  "dict_get d key dflt = (case map_of d key of None \<Rightarrow> dflt | Some v \<Rightarrow> v)"

definition not_subscriptable :: "string \<Rightarrow> exn" where
  "not_subscriptable ty = Exception ''TypeError'' (quote @ ty @ quote @ '' object is not subscriptable'')"

fun getitem_str :: "pyval \<Rightarrow> string \<Rightarrow> exn + pyval" where
  "getitem_str (PDict d) key =
     (case map_of d key of
        None \<Rightarrow> Inl (Exception ''KeyError'' (quote @ key @ quote))
      | Some v \<Rightarrow> Inr v)"
| "getitem_str (PList xs) key =
     Inl (Exception ''TypeError'' ''list indices must be integers or slices, not str'')"
| "getitem_str (PStr s) key =
     Inl (Exception ''TypeError'' (''string indices must be integers, not '' @ quote @ ''str'' @ quote))"
| "getitem_str PNone key = Inl (not_subscriptable ''NoneType'')"
| "getitem_str (PBool b) key = Inl (not_subscriptable ''bool'')"
| "getitem_str (PInt i) key = Inl (not_subscriptable ''int'')"
| "getitem_str (PFloat x) key = Inl (not_subscriptable ''float'')"

text \<open>Subscript \<^verbatim>\<open>[0]\<close>.  A dict parsed from JSON has string keys only, so \<^verbatim>\<open>d[0]\<close> is a KeyError.\<close>

fun getitem_0 :: "pyval \<Rightarrow> exn + pyval" where
  "getitem_0 (PList xs) =
     (case xs of
        [] \<Rightarrow> Inl (Exception ''IndexError'' ''list index out of range'')
      | x # _ \<Rightarrow> Inr x)"
| "getitem_0 (PStr s) =
     (case s of
        [] \<Rightarrow> Inl (Exception ''IndexError'' ''string index out of range'')
      | c # cs \<Rightarrow> Inr (PStr (c # takeWhile utf8_continuation cs)))"
| "getitem_0 (PDict d) = Inl (Exception ''KeyError'' ''0'')"
| "getitem_0 PNone = Inl (not_subscriptable ''NoneType'')"
| "getitem_0 (PBool b) = Inl (not_subscriptable ''bool'')"
| "getitem_0 (PInt i) = Inl (not_subscriptable ''int'')"
| "getitem_0 (PFloat x) = Inl (not_subscriptable ''float'')"

definition type_name :: "pyval \<Rightarrow> string" where
  "type_name v =
     (case v of PNone \<Rightarrow> ''NoneType'' | PBool _ \<Rightarrow> ''bool'' | PInt _ \<Rightarrow> ''int''
      | PFloat _ \<Rightarrow> ''float'' | PStr _ \<Rightarrow> ''str'' | PList _ \<Rightarrow> ''list'' | PDict _ \<Rightarrow> ''dict'')"

text \<open>\<^verbatim>\<open>v + "..."\<close>: defined for a \<^verbatim>\<open>str\<close> on the left, a TypeError for every other value.\<close>

definition add_str :: "pyval \<Rightarrow> string \<Rightarrow> exn + string" where
  "add_str v s =
     (case v of
        PStr t \<Rightarrow> Inr (t @ s)
      | PList _ \<Rightarrow> Inl (Exception ''TypeError''
            (''can only concatenate list (not '' @ [CHR 0x22] @ ''str'' @ [CHR 0x22] @ '') to list''))
      | _ \<Rightarrow> Inl (Exception ''TypeError''
            (''unsupported operand type(s) for +: '' @ quote @ type_name v @ quote
              @ '' and '' @ quote @ ''str'' @ quote)))"

section \<open>The Dataset\<close>

text \<open>
  A pandas DataFrame as the script uses it: a row count (the length of the index) and an
  ordered list of named, typed columns.  A cell is missing (\<open>NA\<close>) or holds a value.
\<close>

datatype cell = NA | IntV int | FloatV real | BoolV bool | StrV string

datatype dtype = Int64 | Float64 | Bool | Object

record column =
  cname :: string
  dtype :: dtype
  cells :: "cell list"

record dataframe =
  index_len :: nat
  columns :: "column list"

text \<open>What \<^verbatim>\<open>pd.read_csv\<close> guarantees: every column has one cell per row, and the column
  names are pairwise different (repeated header names are renamed on loading).\<close>

definition wf_dataframe :: "dataframe \<Rightarrow> bool" where
  "wf_dataframe df \<longleftrightarrow>
     list_all (\<lambda>c. length (cells c) = index_len df) (columns df)
     \<and> distinct (map cname (columns df))"

definition is_number :: "dtype \<Rightarrow> bool" where
  "is_number d = (d = Int64 \<or> d = Float64)"

definition is_na :: "cell \<Rightarrow> bool" where
  "is_na c = (c = NA)"

text \<open>\<^verbatim>\<open>df.select_dtypes(include=['number'])\<close>\<close>

definition select_dtypes_number :: "dataframe \<Rightarrow> dataframe" where
  "select_dtypes_number df = df\<lparr>columns := filter (\<lambda>c. is_number (dtype c)) (columns df)\<rparr>"

text \<open>\<^verbatim>\<open>df.empty\<close>: some axis has length zero.\<close>

definition empty_df :: "dataframe \<Rightarrow> bool" where
  "empty_df df = (index_len df = 0 \<or> columns df = [])"

text \<open>\<^verbatim>\<open>df[column]\<close>: the column of that name, a KeyError when there is none.\<close>

definition getitem_column :: "dataframe \<Rightarrow> string \<Rightarrow> exn + column" where
  "getitem_column df name =
     (case find (\<lambda>c. cname c = name) (columns df) of
        None \<Rightarrow> Inl (Exception ''KeyError'' (quote @ name @ quote))
      | Some c \<Rightarrow> Inr c)"

text \<open>\<^verbatim>\<open>series.dropna()\<close>\<close>

definition dropna :: "column \<Rightarrow> cell list" where
  "dropna c = filter (\<lambda>x. \<not> is_na x) (cells c)"

text \<open>\<^verbatim>\<open>df.isnull().sum().to_dict()\<close>: for every column, the number of missing cells.\<close>

definition isnull_sum :: "dataframe \<Rightarrow> (string \<times> int) list" where
  "isnull_sum df = map (\<lambda>c. (cname c, int (length (filter is_na (cells c))))) (columns df)"

section \<open>The libraries\<close>

text \<open>
  The script is glue around library calls whose code is not part of the repository.  What
  they compute is a parameter of the model; how the script calls them and what it does with
  their results (and with their exceptions) is modelled from the source.  The calls that
  the script guards with \<^verbatim>\<open>try\<close> (\<^verbatim>\<open>pd.read_csv\<close>, \<^verbatim>\<open>httpx.post\<close>,
  \<^verbatim>\<open>response.json\<close>) may raise, and so may two unguarded calls whose failure depends on the
  data: \<^verbatim>\<open>plt.savefig\<close>, whose file name is built from a column name, and \<^verbatim>\<open>f.write\<close>
  on a file opened in text mode, which encodes the text it is given.  The statistics and
  the drawing of a histogram are taken to return, and the working directory to be writable.
\<close>

record response =
  status_code :: nat
  status_message :: string  \<comment> \<open>the message of the error raised for a status that is not 2xx\<close>
  json :: "exn + pyval"  \<comment> \<open>what \<^verbatim>\<open>response.json()\<close> returns or raises\<close>

record lib =
  load_dotenv :: "(string \<rightharpoonup> string) \<Rightarrow> (string \<rightharpoonup> string) \<Rightarrow> (string \<rightharpoonup> string)"
    \<comment> \<open>files, environment \<open>\<mapsto>\<close> environment\<close>
  detect :: "string \<Rightarrow> (string \<times> pyval) list"
    \<comment> \<open>\<^verbatim>\<open>chardet.detect\<close>: bytes \<open>\<mapsto>\<close> result dict\<close>
  read_csv :: "string \<Rightarrow> pyval \<Rightarrow> exn + dataframe"
    \<comment> \<open>\<^verbatim>\<open>pd.read_csv\<close>: bytes of the file, encoding argument\<close>
  describe_all :: "dataframe \<Rightarrow> (string \<times> (string \<times> cell) list) list"
    \<comment> \<open>\<^verbatim>\<open>df.describe(include='all').to_dict()\<close>\<close>
  pearson :: "cell list \<Rightarrow> cell list \<Rightarrow> cell"
    \<comment> \<open>the correlation coefficient of two columns, as \<^verbatim>\<open>DataFrame.corr\<close> computes it\<close>
  histplot :: "cell list \<Rightarrow> string \<Rightarrow> string"
    \<comment> \<open>data, title \<open>\<mapsto>\<close> the bytes \<^verbatim>\<open>plt.savefig\<close> writes\<close>
  post :: "string \<Rightarrow> (string \<times> string) list \<Rightarrow> pyval \<Rightarrow> real \<Rightarrow> exn + response"
    \<comment> \<open>\<^verbatim>\<open>httpx.post\<close>: url, headers, json body, timeout\<close>
  str_analysis :: "(string \<times> (string \<times> cell) list) list \<Rightarrow> (string \<times> int) list
      \<Rightarrow> (string \<times> (string \<times> cell) list) list \<Rightarrow> string"
    \<comment> \<open>Python's \<^verbatim>\<open>str\<close> of the analysis dict\<close>
  savefig_error :: "string \<Rightarrow> exn option"
    \<comment> \<open>what \<^verbatim>\<open>plt.savefig\<close> raises for a file name that cannot be created in the working
        directory (a directory part that does not exist, a name the platform refuses)\<close>
  encode :: "string \<Rightarrow> exn + string"
    \<comment> \<open>the platform's default text encoding on a text that is not all ASCII: its bytes, or
        the \<^verbatim>\<open>UnicodeEncodeError\<close> raised\<close>

text \<open>\<^verbatim>\<open>numeric_df.corr().to_dict()\<close>: for each column, its coefficient with each column.\<close>

definition corr :: "lib \<Rightarrow> dataframe \<Rightarrow> (string \<times> (string \<times> cell) list) list" where
  "corr L df =
     map (\<lambda>c. (cname c, map (\<lambda>r. (cname r, pearson L (cells r) (cells c))) (columns df)))
       (columns df)"

text \<open>\<^verbatim>\<open>response.raise_for_status()\<close>: raises unless the status is 2xx.\<close>

definition raise_for_status :: "response \<Rightarrow> exn + unit" where
  "raise_for_status r =
     (if 200 \<le> status_code r \<and> status_code r < 300 then Inr ()
      else Inl (Exception ''HTTPStatusError'' (status_message r)))"

text \<open>\<^verbatim>\<open>plt.savefig(image_file)\<close>: creates the file and writes the image, or raises.\<close>

definition savefig :: "lib \<Rightarrow> string \<Rightarrow> string \<Rightarrow> world \<Rightarrow> unit result" where
  "savefig L image_file png w =
     (case savefig_error L image_file of
        Some e \<Rightarrow> (Inl e, w)
      | None \<Rightarrow> (Inr (), fwrite image_file png (open_w image_file w)))"

text \<open>
  \<^verbatim>\<open>f.write(s)\<close> on a file opened with \<^verbatim>\<open>open(path, "w")\<close>: the text is encoded with the
  platform's default encoding, and the call raises when the text cannot be encoded, writing
  nothing of it.  Every default encoding writes ASCII text as it is.
\<close>

definition encode_text :: "lib \<Rightarrow> string \<Rightarrow> exn + string" where
  "encode_text L s = (if list_all is_ascii s then Inr s else encode L s)"

definition fwrite_text :: "lib \<Rightarrow> string \<Rightarrow> string \<Rightarrow> world \<Rightarrow> unit result" where
  "fwrite_text L path s w =
     (case encode_text L s of
        Inl e \<Rightarrow> (Inl e, w)
      | Inr bytes \<Rightarrow> (Inr (), fwrite path bytes w))"

section \<open>The script\<close>

definition API_URL :: string where
  "API_URL = ''https://aiproxy.sanand.workers.dev/openai/v1/chat/completions''"

subsection \<open>\<^verbatim>\<open>load_data\<close>\<close>

definition detect_encoding :: "lib \<Rightarrow> string \<Rightarrow> pyval" where
  "detect_encoding L bytes = dict_get (detect L bytes) ''encoding'' (PStr ''utf-8'')"

definition load_data :: "lib \<Rightarrow> string \<Rightarrow> world \<Rightarrow> dataframe result" where
  "load_data L file_path w =
     (case files w file_path of
        None \<Rightarrow>
          (Inl (Exception ''FileNotFoundError''
                 (''[Errno 2] No such file or directory: '' @ quote @ file_path @ quote)), w)
      | Some bytes \<Rightarrow>
          (let encoding = detect_encoding L bytes in
           case read_csv L bytes encoding of
             Inr df \<Rightarrow> (Inr df, w)
           | Inl (Exception cls e) \<Rightarrow>
               (Inl (SystemExit 1), print (''Error loading file: '' @ e) w)
           | Inl (SystemExit n) \<Rightarrow> (Inl (SystemExit n), w)))"

subsection \<open>\<^verbatim>\<open>analyze_data\<close>\<close>

record analysis =
  summary :: "(string \<times> (string \<times> cell) list) list"
  missing_values :: "(string \<times> int) list"
  correlation :: "(string \<times> (string \<times> cell) list) list"

definition analyze_data :: "lib \<Rightarrow> dataframe \<Rightarrow> world \<Rightarrow> analysis result" where
  "analyze_data L df w =
     (let numeric_df = select_dtypes_number df in
      (Inr \<lparr> summary = describe_all L df,
             missing_values = isnull_sum df,
             correlation = (if length (columns numeric_df) > 1 then corr L numeric_df else []) \<rparr>,
       w))"

subsection \<open>\<^verbatim>\<open>visualize_data\<close>\<close>

definition image_name :: "string \<Rightarrow> string" where
  "image_name column = column @ ''_distribution.png''"

fun visualize_loop ::
  "lib \<Rightarrow> dataframe \<Rightarrow> string list \<Rightarrow> string list \<Rightarrow> world \<Rightarrow> (string list) result" where
  "visualize_loop L df [] image_files w = (Inr image_files, w)"
| "visualize_loop L df (column # rest) image_files w =
     (case getitem_column df column of
        Inl e \<Rightarrow> (Inl e, w)
      | Inr c \<Rightarrow>
          (let image = histplot L (dropna c) (''Distribution of '' @ column);
               image_file = image_name column
           in case savefig L image_file image w of
                (Inl e, w') \<Rightarrow> (Inl e, w')
              | (Inr _, w') \<Rightarrow> visualize_loop L df rest (image_files @ [image_file]) w'))"

definition visualize_data :: "lib \<Rightarrow> dataframe \<Rightarrow> world \<Rightarrow> (string list) result" where
  "visualize_data L df w =
     (let numeric_columns = map cname (columns (select_dtypes_number df))
      in visualize_loop L df (take 3 numeric_columns) [] w)"

subsection \<open>\<^verbatim>\<open>generate_story_and_readme\<close>\<close>

definition prompt_of :: "lib \<Rightarrow> analysis \<Rightarrow> string" where
  "prompt_of L a =
     ''Write a story-based analysis of the dataset based on the following summary. ''
     @ ''Integrate any patterns, trends, or anomalies into a creative narrative:'' @ nl
     @ str_analysis L (summary a) (missing_values a) (correlation a)"

text \<open>The body of the \<^verbatim>\<open>try\<close> block: the request, the status check and the extraction of
  \<^verbatim>\<open>response.json()['choices'][0]['message']['content']\<close>.\<close>

definition request_story :: "lib \<Rightarrow> string \<Rightarrow> analysis \<Rightarrow> exn + pyval" where
  "request_story L token a =
     (let headers = [(''Authorization'', ''Bearer '' @ token),
                     (''Content-Type'', ''application/json'')];
          data = PDict [(''model'', PStr ''gpt-4o-mini''),
                        (''messages'', PList [PDict [(''role'', PStr ''user''),
                                                     (''content'', PStr (prompt_of L a))]])]
      in bind (post L API_URL headers data 30) (\<lambda>response.
         bind (raise_for_status response) (\<lambda>_.
         bind (json response) (\<lambda>body.
         bind (getitem_str body ''choices'') (\<lambda>choices.
         bind (getitem_0 choices) (\<lambda>choice.
         bind (getitem_str choice ''message'') (\<lambda>message.
         getitem_str message ''content'')))))))"

text \<open>The \<^verbatim>\<open>try\<close>/\<^verbatim>\<open>except Exception\<close> around it: the value bound to \<^verbatim>\<open>narrative\<close>.\<close>

definition fetch_narrative :: "lib \<Rightarrow> string \<Rightarrow> analysis \<Rightarrow> exn + pyval" where
  "fetch_narrative L token a =
     (case request_story L token a of
        Inr v \<Rightarrow> Inr v
      | Inl (Exception cls e) \<Rightarrow> Inr (PStr (''Error generating story: '' @ e))
      | Inl (SystemExit n) \<Rightarrow> Inl (SystemExit n))"

fun write_images :: "lib \<Rightarrow> string list \<Rightarrow> world \<Rightarrow> unit result" where
  "write_images L [] w = (Inr (), w)"
| "write_images L (img # imgs) w =
     (case fwrite_text L ''README.md'' (''!['' @ img @ ''](./'' @ img @ '')'' @ nl) w of
        (Inl e, w') \<Rightarrow> (Inl e, w')
      | (Inr _, w') \<Rightarrow> write_images L imgs w')"

definition write_readme :: "lib \<Rightarrow> pyval \<Rightarrow> string list \<Rightarrow> world \<Rightarrow> unit result" where
  "write_readme L narrative image_files w =
     (case fwrite_text L ''README.md'' (''# Dataset Analysis'' @ nl @ nl) (open_w ''README.md'' w) of
        (Inl e, w1) \<Rightarrow> (Inl e, w1)
      | (Inr _, w1) \<Rightarrow>
     (case fwrite_text L ''README.md'' (''## Story'' @ nl) w1 of
        (Inl e, w2) \<Rightarrow> (Inl e, w2)
      | (Inr _, w2) \<Rightarrow>
     (case add_str narrative (nl @ nl) of
        Inl e \<Rightarrow> (Inl e, w2)
      | Inr s \<Rightarrow>
     (case fwrite_text L ''README.md'' s w2 of
        (Inl e, w3) \<Rightarrow> (Inl e, w3)
      | (Inr _, w3) \<Rightarrow>
     (case fwrite_text L ''README.md'' (''## Visualizations'' @ nl) w3 of
        (Inl e, w4) \<Rightarrow> (Inl e, w4)
      | (Inr _, w4) \<Rightarrow> write_images L image_files w4)))))"

definition generate_story_and_readme ::
  "lib \<Rightarrow> string \<Rightarrow> analysis \<Rightarrow> string list \<Rightarrow> world \<Rightarrow> unit result" where
  "generate_story_and_readme L token a image_files w =
     (case fetch_narrative L token a of
        Inl e \<Rightarrow> (Inl e, w)
      | Inr narrative \<Rightarrow> write_readme L narrative image_files w)"

subsection \<open>\<^verbatim>\<open>main\<close> and the module level\<close>

definition main :: "lib \<Rightarrow> string \<Rightarrow> string \<Rightarrow> world \<Rightarrow> unit result" where
  "main L token file_path w =
     (if \<not> isfile w file_path then
        (Inl (SystemExit 1),
         print (''Error: File '' @ quote @ file_path @ quote @ '' not found.'') w)
      else
        (case load_data L file_path w of
          (Inl e, w1) \<Rightarrow> (Inl e, w1)
        | (Inr df, w1) \<Rightarrow>
            (if empty_df df then
              (Inl (SystemExit 1), print ''Error: Dataset is empty. Exiting.'' w1)
            else
              (case analyze_data L df w1 of
                (Inl e, w2) \<Rightarrow> (Inl e, w2)
              | (Inr a, w2) \<Rightarrow>
                  (case visualize_data L df w2 of
                    (Inl e, w3) \<Rightarrow> (Inl e, w3)
                  | (Inr image_files, w3) \<Rightarrow>
                      (case generate_story_and_readme L token a image_files w3 of
                        (Inl e, w4) \<Rightarrow> (Inl e, w4)
                      | (Inr _, w4) \<Rightarrow>
                          (Inr (),
                           print ''README.md and visualizations created successfully!'' w4)))))))"

text \<open>The module body: the credential check, then the \<^verbatim>\<open>__main__\<close> block.\<close>

definition script ::
  "lib \<Rightarrow> (string \<rightharpoonup> string) \<Rightarrow> string list \<Rightarrow> world \<Rightarrow> unit result" where
  "script L environ argv w =
     (case load_dotenv L (files w) environ ''AIPROXY_TOKEN'' of
        None \<Rightarrow>
          (Inl (SystemExit 1), print ''Error: AIPROXY_TOKEN environment variable is not set.'' w)
      | Some token \<Rightarrow>
          if token = [] then
            (Inl (SystemExit 1), print ''Error: AIPROXY_TOKEN environment variable is not set.'' w)
          else if length argv \<noteq> 2 then
            (Inl (SystemExit 1), print ''Usage: python autolysis.py <dataset.csv>'' w)
          else main L token (argv ! 1) w)"

text \<open>The exit status of the process: 0 on a normal return, the argument of
  \<^verbatim>\<open>sys.exit\<close>, 1 after an uncaught exception.\<close>

definition exit_code :: "exn + unit \<Rightarrow> int" where
  "exit_code r = (case r of Inr _ \<Rightarrow> 0 | Inl (SystemExit n) \<Rightarrow> n | Inl (Exception _ _) \<Rightarrow> 1)"

section \<open>A small run\<close>

text \<open>
  Concrete libraries, datasets and a starting world, used to run the definitions: three CSV
  files with the frames they load to, a working directory without subdirectories on a
  platform that writes text as UTF-8, and a completion service that cannot be reached.
\<close>

definition data_csv :: string where
  "data_csv = ''name,age,score,h,w'' @ nl @ ''a,31,7,,1'' @ nl @ '',,9,,2'' @ nl
                @ ''c,45,8,,3'' @ nl"

definition text_csv :: string where
  "text_csv = ''name,ok'' @ nl @ ''a,True'' @ nl @ ''b,False'' @ nl"

definition header_csv :: string where
  "header_csv = ''name'' @ nl"

definition demo_df :: dataframe where
  "demo_df =
     \<lparr> index_len = 3,
       columns =
         [ \<lparr> cname = ''name'', dtype = Object, cells = [StrV ''a'', NA, StrV ''c''] \<rparr>,
           \<lparr> cname = ''age'', dtype = Float64, cells = [FloatV 31, NA, FloatV 45] \<rparr>,
           \<lparr> cname = ''score'', dtype = Int64, cells = [IntV 7, IntV 9, IntV 8] \<rparr>,
           \<lparr> cname = ''h'', dtype = Float64, cells = [NA, NA, NA] \<rparr>,
           \<lparr> cname = ''w'', dtype = Int64, cells = [IntV 1, IntV 2, IntV 3] \<rparr> ] \<rparr>"

definition text_df :: dataframe where
  "text_df =
     \<lparr> index_len = 2,
       columns =
         [ \<lparr> cname = ''name'', dtype = Object, cells = [StrV ''a'', StrV ''b''] \<rparr>,
           \<lparr> cname = ''ok'', dtype = Bool, cells = [BoolV True, BoolV False] \<rparr> ] \<rparr>"

definition one_numeric_df :: dataframe where
  "one_numeric_df =
     \<lparr> index_len = 2,
       columns =
         [ \<lparr> cname = ''name'', dtype = Object, cells = [StrV ''a'', StrV ''b''] \<rparr>,
           \<lparr> cname = ''age'', dtype = Int64, cells = [IntV 3, IntV 4] \<rparr> ] \<rparr>"

definition header_only_df :: dataframe where
  "header_only_df =
     \<lparr> index_len = 0,
       columns = [ \<lparr> cname = ''name'', dtype = Object, cells = [] \<rparr> ] \<rparr>"

text \<open>Two frames with a numeric column whose name has a directory part: what
  \<^verbatim>\<open>c,a/b\<close>, \<^verbatim>\<open>1,\<close>, \<^verbatim>\<open>2,2.5\<close> and \<^verbatim>\<open>id,km/h\<close>, \<^verbatim>\<open>x,\<close>, \<^verbatim>\<open>y,3.5\<close> load to.\<close>

definition slash_df :: dataframe where
  "slash_df =
     \<lparr> index_len = 2,
       columns =
         [ \<lparr> cname = ''c'', dtype = Int64, cells = [IntV 1, IntV 2] \<rparr>,
           \<lparr> cname = ''a/b'', dtype = Float64, cells = [NA, FloatV 2.5] \<rparr> ] \<rparr>"


text \<open>A working directory without subdirectories: a file whose name has a directory part
  other than \<^verbatim>\<open>.\<close> cannot be created there.\<close>

definition dirname :: "string \<Rightarrow> string" where
  "dirname path = rev (drop 1 (dropWhile (\<lambda>c. c \<noteq> CHR ''/'') (rev path)))"

definition no_subdirectory :: "string \<Rightarrow> exn option" where
  "no_subdirectory path =
     (if dirname path = [] \<or> dirname path = ''.'' then None
      else Some (Exception ''FileNotFoundError''
                  (''[Errno 2] No such file or directory: '' @ quote @ path @ quote)))"

definition demo_lib :: lib where
  "demo_lib =
     \<lparr> load_dotenv = (\<lambda>fs env. env),
       detect = (\<lambda>bytes. [(''encoding'', PStr ''ascii''), (''confidence'', PFloat 1),
                           (''language'', PStr [])]),
       read_csv = (\<lambda>bytes encoding.
          if bytes = header_csv then Inr header_only_df
          else if bytes = text_csv then Inr text_df
          else if bytes = data_csv then Inr demo_df
          else Inl (Exception ''EmptyDataError'' ''No columns to parse from file'')),
       describe_all = (\<lambda>df. map (\<lambda>c. (cname c, [(''count'', IntV (int (length (dropna c))))]))
                                (columns df)),
       pearson = (\<lambda>xs ys. if xs = ys then FloatV 1 else NA),
       histplot = (\<lambda>data title. title @ '': '' @ replicate (length data) (CHR ''*'')),
       post = (\<lambda>url headers data timeout. Inl (Exception ''ConnectError'' ''connection refused'')),
       str_analysis = (\<lambda>s m c. ''{}''),
       savefig_error = no_subdirectory,
       encode = (\<lambda>s. Inr s) \<rparr>"

definition demo_world :: world where
  "demo_world =
     \<lparr> files = [''data.csv'' \<mapsto> data_csv, ''text.csv'' \<mapsto> text_csv,
                 ''header.csv'' \<mapsto> header_csv],
       stdout = [] \<rparr>"

text \<open>A response with status 200 whose body has the expected shape, with the given value
  at \<^verbatim>\<open>choices[0].message.content\<close>.\<close>

definition content_response :: "pyval \<Rightarrow> response" where
  "content_response v =
     \<lparr> status_code = 200,
       status_message = [],
       json = Inr (PDict [(''choices'',
                 PList [PDict [(''message'', PDict [(''role'', PStr ''assistant''),
                                                    (''content'', v)])]])]) \<rparr>"

text \<open>What \<^verbatim>\<open>chardet.detect\<close> returns when it recognises no encoding, as for an empty input.\<close>

definition no_detection :: "(string \<times> pyval) list" where
  "no_detection = [(''encoding'', PNone), (''confidence'', PFloat 0), (''language'', PNone)]"

text \<open>A service that answers with \<^verbatim>\<open>null\<close> for the content, and one that answers with the
  four-letter story \<^verbatim>\<open>caf\<close> followed by U+00E9 (two bytes in UTF-8) on a platform whose
  default encoding is ASCII.\<close>

definition null_story_lib :: lib where
  "null_story_lib =
     demo_lib\<lparr>post := (\<lambda>url headers data timeout. Inr (content_response PNone))\<rparr>"

definition accent_story :: string where
  "accent_story = ''caf'' @ [CHR 0xC3, CHR 0xA9]"

definition ascii_encode :: "string \<Rightarrow> exn + string" where
  "ascii_encode s =
     Inl (Exception ''UnicodeEncodeError''
           (quote @ ''ascii'' @ quote @ '' codec can'' @ quote @ ''t encode character ''
            @ quote @ [CHR 0x5C] @ ''xe9'' @ quote
            @ '' in position 3: ordinal not in range(128)''))"

definition accent_story_lib :: lib where
  "accent_story_lib =
     demo_lib\<lparr>post := (\<lambda>url headers data timeout. Inr (content_response (PStr accent_story))),
              encode := ascii_encode\<rparr>"

section \<open>Auxiliary facts\<close>

lemma files_save: "files (fwrite p s (open_w p w)) = (files w)(p \<mapsto> s)"
  by (simp add: fwrite_def open_w_def)


lemma savefig_ok:
  "savefig_error L p = None \<Longrightarrow> savefig L p img w = (Inr (), fwrite p img (open_w p w))"
  by (simp add: savefig_def)

lemma savefig_raises:
  "savefig_error L p = Some e \<Longrightarrow> savefig L p img w = (Inl e, w)"
  by (simp add: savefig_def)


lemma find_Some_mem: "find P xs = Some c \<Longrightarrow> c \<in> set xs \<and> P c"
  by (induction xs) (auto split: if_splits)

lemma getitem_column_mem:
  assumes "name \<in> cname ` set (columns df)"
  shows "\<exists>c. getitem_column df name = Inr c \<and> c \<in> set (columns df) \<and> cname c = name"
proof (cases "find (\<lambda>c. cname c = name) (columns df)")
  case None
  with assms show ?thesis by (auto simp: find_None_iff)
next
  case (Some c)
  with find_Some_mem[OF Some] show ?thesis
    by (simp add: getitem_column_def)
qed


lemma visualize_loop_step:
  assumes "getitem_column df n = Inr c" and "savefig_error L (image_name n) = None"
  shows "visualize_loop L df (n # names) acc w =
           visualize_loop L df names (acc @ [image_name n])
             (fwrite (image_name n) (histplot L (dropna c) (''Distribution of '' @ n))
               (open_w (image_name n) w))"
  using assms by (simp add: Let_def savefig_ok)

lemma visualize_loop_returns:
  "set names \<subseteq> cname ` set (columns df) \<Longrightarrow>
   \<forall>n\<in>set names. savefig_error L (image_name n) = None \<Longrightarrow>
   fst (visualize_loop L df names acc w) = Inr (acc @ map image_name names)"
proof (induction names arbitrary: acc w)
  case Nil
  then show ?case by simp
next
  case (Cons n names)
  then obtain c where c: "getitem_column df n = Inr c"
    using getitem_column_mem[of n df] by auto
  from Cons.prems have ok: "savefig_error L (image_name n) = None" by simp
  show ?case
    unfolding visualize_loop_step [OF c ok]
    using Cons.IH Cons.prems by simp
qed


lemma visualize_loop_saved:
  "set names \<subseteq> cname ` set (columns df) \<Longrightarrow>
   \<forall>n\<in>set names. savefig_error L (image_name n) = None \<Longrightarrow>
   (\<forall>p. files w p \<noteq> None \<longrightarrow> files (snd (visualize_loop L df names acc w)) p \<noteq> None) \<and>
   (\<forall>n\<in>set names. files (snd (visualize_loop L df names acc w)) (image_name n) \<noteq> None)"
proof (induction names arbitrary: acc w)
  case Nil
  then show ?case by simp
next
  case (Cons n names)
  then obtain c where c: "getitem_column df n = Inr c"
    using getitem_column_mem[of n df] by auto
  from Cons.prems have ok: "savefig_error L (image_name n) = None" by simp
  let ?w1 = "fwrite (image_name n) (histplot L (dropna c) (''Distribution of '' @ n)) (open_w (image_name n) w)"
  have IH: "(\<forall>p. files ?w1 p \<noteq> None \<longrightarrow> files (snd (visualize_loop L df names (acc @ [image_name n]) ?w1)) p \<noteq> None) \<and>
   (\<forall>m\<in>set names. files (snd (visualize_loop L df names (acc @ [image_name n]) ?w1)) (image_name m) \<noteq> None)"
    using Cons.IH[where acc="acc @ [image_name n]" and w="?w1"] Cons.prems by simp
  have w1: "files ?w1 (image_name n) \<noteq> None" "\<And>p. files w p \<noteq> None \<Longrightarrow> files ?w1 p \<noteq> None"
    by (simp_all add: files_save)
  show ?case
    unfolding visualize_loop_step [OF c ok] using IH w1 by auto
qed

lemma visualize_loop_raises:
  "\<exists>n\<in>set names. savefig_error L (image_name n) \<noteq> None \<Longrightarrow>
   \<exists>e. fst (visualize_loop L df names acc w) = Inl e"
proof (induction names arbitrary: acc w)
  case Nil
  then show ?case by simp
next
  case (Cons n names)
  show ?case
  proof (cases "getitem_column df n")
    case (Inl e)
    then show ?thesis by simp
  next
    case (Inr c)
    show ?thesis
    proof (cases "savefig_error L (image_name n)")
      case (Some e)
      then show ?thesis using Inr by (simp add: Let_def savefig_raises)
    next
      case None
      with Cons.prems have "\<exists>m\<in>set names. savefig_error L (image_name m) \<noteq> None" by auto
      from Cons.IH [OF this] show ?thesis
        unfolding visualize_loop_step [OF Inr None] .
    qed
  qed
qed


lemma isnull_sum_bounds:
  "list_all (\<lambda>c. length (cells c) = n) (columns df) \<Longrightarrow>
   \<forall>entry \<in> set (isnull_sum df). 0 \<le> snd entry \<and> snd entry \<le> int n"
  by (auto simp: isnull_sum_def list_all_iff intro: order_trans [OF length_filter_le])

lemma demo_wf: "wf_dataframe demo_df"
  by (simp add: wf_dataframe_def demo_df_def)

lemma numeric_names_subset:
  "set (take 3 (map cname (filter P (columns df)))) \<subseteq> cname ` set (columns df)"
proof -
  have "set (take 3 (map cname (filter P (columns df)))) \<subseteq> set (map cname (filter P (columns df)))"
    by (rule set_take_subset)
  also have "\<dots> \<subseteq> cname ` set (columns df)" by auto
  finally show ?thesis .
qed

lemma load_data_world: "load_data L file_path w = (Inr df, w1) \<Longrightarrow> w1 = w"
  by (auto simp: load_data_def Let_def split: option.splits sum.splits exn.splits)

lemma files_print: "files (print line w) = files w"
  by (simp add: print_def)

lemma stdout_print: "stdout (print line w) = stdout w @ [line]"
  by (simp add: print_def)

lemma fwrite_Some:
  "files w p = Some c \<Longrightarrow> fwrite p s w = w\<lparr>files := (files w)(p \<mapsto> c @ s)\<rparr>"
  by (simp add: fwrite_def)

lemma demo_load: "load_data demo_lib ''data.csv'' demo_world = (Inr demo_df, demo_world)"
  by (simp add: load_data_def demo_world_def demo_lib_def data_csv_def text_csv_def header_csv_def)

lemma fwrite_text_ascii:
  "list_all is_ascii s \<Longrightarrow> fwrite_text L p s w = (Inr (), fwrite p s w)"
  by (simp add: fwrite_text_def encode_text_def)

lemma fwrite_text_encoded:
  "encode_text L s = Inr bytes \<Longrightarrow> fwrite_text L p s w = (Inr (), fwrite p bytes w)"
  by (simp add: fwrite_text_def)

lemma fwrite_text_raises:
  "encode_text L s = Inl e \<Longrightarrow> fwrite_text L p s w = (Inl e, w)"
  by (simp add: fwrite_text_def)

lemma readme_head:
  "fwrite_text L ''README.md'' (''## Story'' @ nl)
     (snd (fwrite_text L ''README.md'' (''# Dataset Analysis'' @ nl @ nl) (open_w ''README.md'' w)))
   = (Inr (), w\<lparr>files := (files w)(''README.md'' \<mapsto>
                  ''# Dataset Analysis'' @ nl @ nl @ ''## Story'' @ nl)\<rparr>)"
  by (simp add: fwrite_text_ascii is_ascii_def fwrite_def open_w_def)

lemma write_images_ascii:
  "files w ''README.md'' = Some c \<Longrightarrow> \<forall>img\<in>set imgs. list_all is_ascii img \<Longrightarrow>
   write_images L imgs w =
     (Inr (),
      w\<lparr>files := (files w)(''README.md'' \<mapsto>
          c @ concat (map (\<lambda>img. ''!['' @ img @ ''](./'' @ img @ '')'' @ nl) imgs))\<rparr>)"
proof (induction imgs arbitrary: w c)
  case Nil
  then show ?case by (simp add: map_upd_triv)
next
  case (Cons img imgs)
  let ?ref = "''!['' @ img @ ''](./'' @ img @ '')'' @ nl"
  let ?refs = "concat (map (\<lambda>img. ''!['' @ img @ ''](./'' @ img @ '')'' @ nl) imgs)"
  let ?w1 = "w\<lparr>files := (files w)(''README.md'' \<mapsto> c @ ?ref)\<rparr>"
  from Cons.prems(2) have "list_all is_ascii ?ref"
    by (simp add: list_all_iff is_ascii_def)
  then have "fwrite_text L ''README.md'' ?ref w = (Inr (), fwrite ''README.md'' ?ref w)"
    by (rule fwrite_text_ascii)
  also have "fwrite ''README.md'' ?ref w = ?w1"
    using Cons.prems(1) by (rule fwrite_Some)
  finally have w1: "fwrite_text L ''README.md'' ?ref w = (Inr (), ?w1)" .
  have f1: "files ?w1 ''README.md'' = Some (c @ ?ref)" by simp
  from Cons.prems(2) have rest: "\<forall>img\<in>set imgs. list_all is_ascii img" by simp
  have "write_images L (img # imgs) w = write_images L imgs ?w1"
    by (simp only: write_images.simps w1 prod.case sum.case)
  also have "\<dots> = (Inr (), ?w1\<lparr>files := (files ?w1)(''README.md'' \<mapsto> (c @ ?ref) @ ?refs)\<rparr>)"
    using f1 rest by (rule Cons.IH)
  also have "?w1\<lparr>files := (files ?w1)(''README.md'' \<mapsto> (c @ ?ref) @ ?refs)\<rparr>
              = w\<lparr>files := (files w)(''README.md'' \<mapsto> (c @ ?ref) @ ?refs)\<rparr>"
    by simp
  finally have "write_images L (img # imgs) w =
      (Inr (), w\<lparr>files := (files w)(''README.md'' \<mapsto> (c @ ?ref) @ ?refs)\<rparr>)" .
  moreover have "(c @ ?ref) @ ?refs =
      c @ concat (map (\<lambda>img. ''!['' @ img @ ''](./'' @ img @ '')'' @ nl) (img # imgs))"
    by simp
  ultimately show ?case by (simp only:)
qed

lemma write_readme_text_raises:
  assumes "encode_text L (s @ nl @ nl) = Inl e"
  shows "write_readme L (PStr s) imgs w =
     (Inl e, w\<lparr>files := (files w)(''README.md'' \<mapsto>
                  ''# Dataset Analysis'' @ nl @ nl @ ''## Story'' @ nl)\<rparr>)"
proof -
  have t: "fwrite_text L ''README.md'' (''# Dataset Analysis'' @ nl @ nl) (open_w ''README.md'' w)
        = (Inr (), fwrite ''README.md'' (''# Dataset Analysis'' @ nl @ nl) (open_w ''README.md'' w))"
    by (rule fwrite_text_ascii) (simp add: is_ascii_def)
  from readme_head [of L w] t fwrite_text_raises [OF assms]
  show ?thesis
    by (simp add: write_readme_def add_str_def)
qed

lemma write_readme_text_body:
  assumes "encode_text L (s @ nl @ nl) = Inr bytes"
  shows "write_readme L (PStr s) imgs w =
     write_images L imgs
       (w\<lparr>files := (files w)(''README.md'' \<mapsto>
            ''# Dataset Analysis'' @ nl @ nl @ ''## Story'' @ nl @ bytes
            @ ''## Visualizations'' @ nl)\<rparr>)"
proof -
  have t: "fwrite_text L ''README.md'' (''# Dataset Analysis'' @ nl @ nl) (open_w ''README.md'' w)
        = (Inr (), fwrite ''README.md'' (''# Dataset Analysis'' @ nl @ nl) (open_w ''README.md'' w))"
    by (rule fwrite_text_ascii) (simp add: is_ascii_def)
  have v: "\<And>w'. fwrite_text L ''README.md'' (''## Visualizations'' @ nl) w'
        = (Inr (), fwrite ''README.md'' (''## Visualizations'' @ nl) w')"
    by (rule fwrite_text_ascii) (simp add: is_ascii_def)
  from readme_head [of L w] t fwrite_text_encoded [OF assms] v
  show ?thesis
    by (simp add: write_readme_def add_str_def fwrite_def)
qed

lemma write_readme_text:
  assumes "encode_text L (s @ nl @ nl) = Inr bytes"
  shows "write_readme L (PStr s) [] w =
     (Inr (),
      w\<lparr>files := (files w)(''README.md'' \<mapsto>
           ''# Dataset Analysis'' @ nl @ nl @ ''## Story'' @ nl @ bytes
           @ ''## Visualizations'' @ nl)\<rparr>)"
  by (simp add: write_readme_text_body [OF assms])

lemma generate_story_request_raises:
  assumes "request_story L token a = Inl (Exception cls e)"
    and "list_all is_ascii e"
    and "\<forall>img\<in>set imgs. list_all is_ascii img"
  shows "generate_story_and_readme L token a imgs w =
     (Inr (),
      w\<lparr>files := (files w)(''README.md'' \<mapsto>
           ''# Dataset Analysis'' @ nl @ nl @ ''## Story'' @ nl
           @ ''Error generating story: '' @ e @ nl @ nl
           @ ''## Visualizations'' @ nl
           @ concat (map (\<lambda>img. ''!['' @ img @ ''](./'' @ img @ '')'' @ nl) imgs))\<rparr>)"
proof -
  let ?s = "''Error generating story: '' @ e"
  let ?c = "''# Dataset Analysis'' @ nl @ nl @ ''## Story'' @ nl @ (?s @ nl @ nl)
            @ ''## Visualizations'' @ nl"
  let ?w4 = "w\<lparr>files := (files w)(''README.md'' \<mapsto> ?c)\<rparr>"
  from assms(2) have "list_all is_ascii (?s @ nl @ nl)"
    by (simp add: list_all_iff is_ascii_def)
  then have enc: "encode_text L (?s @ nl @ nl) = Inr (?s @ nl @ nl)"
    by (simp add: encode_text_def)
  have f: "files ?w4 ''README.md'' = Some ?c" by simp
  have fn: "fetch_narrative L token a = Inr (PStr ?s)"
    using assms(1) by (simp add: fetch_narrative_def)
  have "generate_story_and_readme L token a imgs w = write_readme L (PStr ?s) imgs w"
    using fn by (simp add: generate_story_and_readme_def)
  also have "\<dots> = write_images L imgs ?w4"
    by (rule write_readme_text_body [OF enc])
  also have "\<dots> = (Inr (), ?w4\<lparr>files := (files ?w4)(''README.md'' \<mapsto>
          ?c @ concat (map (\<lambda>img. ''!['' @ img @ ''](./'' @ img @ '')'' @ nl) imgs))\<rparr>)"
    using f assms(3) by (rule write_images_ascii)
  finally show ?thesis by simp
qed

lemma request_story_transport_error:
  "post L = (\<lambda>url headers data timeout. Inl (Exception cls e)) \<Longrightarrow>
   request_story L token a = Inl (Exception cls e)"
  by (simp add: request_story_def bind_def Let_def)

lemma request_story_bad_status:
  "post L = (\<lambda>url headers data timeout. Inr r) \<Longrightarrow>
   \<not> (200 \<le> status_code r \<and> status_code r < 300) \<Longrightarrow>
   request_story L token a = Inl (Exception ''HTTPStatusError'' (status_message r))"
  by (auto simp: request_story_def bind_def raise_for_status_def Let_def)

lemma request_story_bad_body:
  "post L = (\<lambda>url headers data timeout. Inr r) \<Longrightarrow>
   200 \<le> status_code r \<and> status_code r < 300 \<Longrightarrow>
   json r = Inl (Exception cls e) \<Longrightarrow>
   request_story L token a = Inl (Exception cls e)"
  by (simp add: request_story_def bind_def raise_for_status_def Let_def)

lemma request_story_no_choices:
  "post L = (\<lambda>url headers data timeout. Inr r) \<Longrightarrow>
   200 \<le> status_code r \<and> status_code r < 300 \<Longrightarrow>
   json r = Inr (PDict d) \<Longrightarrow> map_of d ''choices'' = None \<Longrightarrow>
   request_story L token a = Inl (Exception ''KeyError'' (quote @ ''choices'' @ quote))"
  by (simp add: request_story_def bind_def raise_for_status_def Let_def)

lemma detect_encoding_cases:
  "detect_encoding L bytes =
     (case map_of (detect L bytes) ''encoding'' of None \<Rightarrow> PStr ''utf-8'' | Some v \<Rightarrow> v)"
  by (simp add: detect_encoding_def dict_get_def)

lemma visualize_data_no_numeric:
  "filter (\<lambda>c. is_number (dtype c)) (columns df) = [] \<Longrightarrow> visualize_data L df w = (Inr [], w)"
  by (simp add: visualize_data_def select_dtypes_number_def)

lemma demo_chart_names:
  "no_subdirectory ''age_distribution.png'' = None"
  "no_subdirectory ''score_distribution.png'' = None"
  "no_subdirectory ''h_distribution.png'' = None"
  by (simp_all add: no_subdirectory_def dirname_def)

lemma main_text_report:
  assumes "isfile w file_path"
    and "load_data L file_path w = (Inr df, w1)"
    and "\<not> empty_df df"
    and "filter (\<lambda>c. is_number (dtype c)) (columns df) = []"
    and "analyze_data L df w1 = (Inr a, w2)"
  shows "main L token file_path w =
     (case generate_story_and_readme L token a [] w of
        (Inl e, w4) \<Rightarrow> (Inl e, w4)
      | (Inr _, w4) \<Rightarrow>
          (Inr (), print ''README.md and visualizations created successfully!'' w4))"
proof -
  from assms(2) have w1: "w1 = w" by (rule load_data_world)
  from assms(5) have w2: "w2 = w1" by (auto simp: analyze_data_def Let_def)
  have v: "visualize_data L df w = (Inr [], w)"
    using assms(4) by (rule visualize_data_no_numeric)
  show ?thesis
    using assms(1,2,3,5) w1 w2 v by (simp add: main_def)
qed

lemma text_load: "load_data demo_lib ''text.csv'' demo_world = (Inr text_df, demo_world)"
  by (simp add: load_data_def demo_world_def demo_lib_def text_csv_def header_csv_def)

section \<open>The encoding detector\<close>

text \<open>
  Claim C4.  The claim: the encoding handed to the loader is the detected label when
  detection yields one, and UTF-8 when it yields none.  \<^verbatim>\<open>chardet.detect\<close> always
  returns a dict that has the key \<^verbatim>\<open>encoding\<close>, bound to \<^verbatim>\<open>None\<close> when nothing was
  detected, so the default of \<^verbatim>\<open>result.get('encoding', 'utf-8')\<close> is not used there: on
  such a result the script's encoding is \<^verbatim>\<open>None\<close>, not the label UTF-8 that the comment
  on that line announces.
\<close>

theorem detect_encoding_no_result:
  "detect_encoding (L\<lparr>detect := (\<lambda>bytes. no_detection)\<rparr>) bytes = PNone
   \<and> detect_encoding (L\<lparr>detect := (\<lambda>bytes. no_detection)\<rparr>) bytes \<noteq> PStr ''utf-8''"
  by (simp add: detect_encoding_def dict_get_def no_detection_def)

section \<open>The analyzer\<close>

text \<open>
  Claim C3.  With fewer than two numeric columns the correlation component is the empty
  mapping.  With two or more it is the correlation of the dataset restricted to its numeric
  columns: its keys, and the keys of each of its rows, are the names of the numeric columns
  in dataset order.
\<close>

theorem analyze_data_correlation:
  "\<exists>a. analyze_data L df w = (Inr a, w)
     \<and> (length (filter (\<lambda>c. is_number (dtype c)) (columns df)) < 2 \<longrightarrow> correlation a = [])
     \<and> (2 \<le> length (filter (\<lambda>c. is_number (dtype c)) (columns df)) \<longrightarrow>
          correlation a = corr L (df\<lparr>columns := filter (\<lambda>c. is_number (dtype c)) (columns df)\<rparr>)
          \<and> map fst (correlation a) = map cname (filter (\<lambda>c. is_number (dtype c)) (columns df))
          \<and> (\<forall>row \<in> set (correlation a).
                map fst (snd row) = map cname (filter (\<lambda>c. is_number (dtype c)) (columns df))))"
  by (auto simp: analyze_data_def Let_def select_dtypes_number_def corr_def comp_def)

theorem analyze_data_correlation_witness:
  "(\<exists>a. analyze_data demo_lib one_numeric_df demo_world = (Inr a, demo_world) \<and> correlation a = [])
   \<and> (\<exists>a. analyze_data demo_lib demo_df demo_world = (Inr a, demo_world)
        \<and> map fst (correlation a) = [''age'', ''score'', ''h'', ''w''])"
proof -
  have one: "length (filter (\<lambda>c. is_number (dtype c)) (columns one_numeric_df)) < 2"
    by (simp add: one_numeric_df_def is_number_def)
  have four: "2 \<le> length (filter (\<lambda>c. is_number (dtype c)) (columns demo_df))"
    and names: "map cname (filter (\<lambda>c. is_number (dtype c)) (columns demo_df))
                  = [''age'', ''score'', ''h'', ''w'']"
    by (simp_all add: demo_df_def is_number_def)
  from analyze_data_correlation [of demo_lib one_numeric_df demo_world] one
  have first: "\<exists>a. analyze_data demo_lib one_numeric_df demo_world = (Inr a, demo_world)
                  \<and> correlation a = []"
    by blast
  from analyze_data_correlation [of demo_lib demo_df demo_world] four names
  have second: "\<exists>a. analyze_data demo_lib demo_df demo_world = (Inr a, demo_world)
                  \<and> map fst (correlation a) = [''age'', ''score'', ''h'', ''w'']"
    by metis
  from first second show ?thesis by blast
qed

text \<open>
  Claim C7.  For a file that loads to a well-formed dataset with at least one row, the
  missing-value component of the analysis has one entry per column, and each count lies
  between 0 and the number of rows.
\<close>

theorem missing_values_bounds:
  assumes "load_data L file_path w = (Inr df, w1)"
    and "wf_dataframe df"
    and "0 < index_len df"
    and "analyze_data L df w1 = (Inr a, w2)"
  shows "map fst (missing_values a) = map cname (columns df)
     \<and> (\<forall>entry \<in> set (missing_values a). 0 \<le> snd entry \<and> snd entry \<le> int (index_len df))"
proof -
  from assms(4) have mv: "missing_values a = isnull_sum df"
    by (auto simp: analyze_data_def Let_def)
  from assms(2) have "list_all (\<lambda>c. length (cells c) = index_len df) (columns df)"
    by (simp add: wf_dataframe_def)
  from isnull_sum_bounds [OF this] mv show ?thesis
    by (simp add: isnull_sum_def comp_def)
qed

theorem missing_values_bounds_witness:
  "load_data demo_lib ''data.csv'' demo_world = (Inr demo_df, demo_world)
   \<and> wf_dataframe demo_df \<and> 0 < index_len demo_df
   \<and> (\<exists>a. analyze_data demo_lib demo_df demo_world = (Inr a, demo_world)
        \<and> missing_values a = [(''name'', 1), (''age'', 1), (''score'', 0), (''h'', 3), (''w'', 0)]
        \<and> (\<forall>entry \<in> set (missing_values a). 0 \<le> snd entry \<and> snd entry \<le> int (index_len demo_df)))"
proof -
  let ?a = "\<lparr> summary = describe_all demo_lib demo_df, missing_values = isnull_sum demo_df,
              correlation = corr demo_lib (select_dtypes_number demo_df) \<rparr>"
  have an: "analyze_data demo_lib demo_df demo_world = (Inr ?a, demo_world)"
    by (simp add: analyze_data_def Let_def select_dtypes_number_def demo_df_def is_number_def)
  have len: "0 < index_len demo_df" by (simp add: demo_df_def)
  have mv: "missing_values ?a = [(''name'', 1), (''age'', 1), (''score'', 0), (''h'', 3), (''w'', 0)]"
    by (simp add: isnull_sum_def demo_df_def is_na_def)
  from missing_values_bounds [OF demo_load demo_wf len an] demo_load demo_wf len an mv
  show ?thesis by blast
qed

section \<open>The visualizer\<close>

text \<open>
  Claim C2, as amended.  For a dataset with \<open>k\<close> numeric columns: when the chart file of
  each of the first three numeric columns can be saved, \<^verbatim>\<open>visualize_data\<close> returns exactly
  \<open>min k 3\<close> image files, one for each of these columns in dataset order, each of them
  present in the working directory afterwards; when \<^verbatim>\<open>plt.savefig\<close> raises for one of
  them, the exception leaves \<^verbatim>\<open>visualize_data\<close> and no list is returned.
\<close>

theorem visualize_data_count:
  assumes "k = length (filter (\<lambda>c. is_number (dtype c)) (columns df))"
  shows "((\<forall>c \<in> set (take 3 (filter (\<lambda>c. is_number (dtype c)) (columns df))).
             savefig_error L (cname c @ ''_distribution.png'') = None) \<longrightarrow>
          (\<exists>imgs w'. visualize_data L df w = (Inr imgs, w')
             \<and> length imgs = min k 3
             \<and> imgs = map (\<lambda>c. cname c @ ''_distribution.png'')
                        (take 3 (filter (\<lambda>c. is_number (dtype c)) (columns df)))
             \<and> (\<forall>f \<in> set imgs. files w' f \<noteq> None)))
     \<and> ((\<exists>c \<in> set (take 3 (filter (\<lambda>c. is_number (dtype c)) (columns df))).
             savefig_error L (cname c @ ''_distribution.png'') \<noteq> None) \<longrightarrow>
          (\<exists>e w'. visualize_data L df w = (Inl e, w')))"
proof -
  let ?num = "filter (\<lambda>c. is_number (dtype c)) (columns df)"
  let ?names = "take 3 (map cname ?num)"
  let ?r = "visualize_loop L df ?names [] w"
  have sub: "set ?names \<subseteq> cname ` set (columns df)" by (rule numeric_names_subset)
  have vd: "visualize_data L df w = ?r"
    by (simp add: visualize_data_def select_dtypes_number_def)
  have names: "set ?names = cname ` set (take 3 ?num)"
    by (simp add: take_map)
  have returns: "\<exists>imgs w'. visualize_data L df w = (Inr imgs, w')
             \<and> length imgs = min k 3
             \<and> imgs = map (\<lambda>c. cname c @ ''_distribution.png'') (take 3 ?num)
             \<and> (\<forall>f \<in> set imgs. files w' f \<noteq> None)"
    if ok: "\<forall>c \<in> set (take 3 ?num). savefig_error L (cname c @ ''_distribution.png'') = None"
  proof -
    from ok names have ok': "\<forall>n\<in>set ?names. savefig_error L (image_name n) = None"
      by (auto simp: image_name_def)
    have ret: "fst ?r = Inr (map image_name ?names)"
      using visualize_loop_returns [OF sub ok', of "[]" w] by simp
    have imgs: "map image_name ?names = map (\<lambda>c. cname c @ ''_distribution.png'') (take 3 ?num)"
      by (simp add: take_map image_name_def comp_def)
    have saved: "\<forall>f \<in> set (map image_name ?names). files (snd ?r) f \<noteq> None"
      using visualize_loop_saved [OF sub ok', where w=w and acc="[]"] by auto
    have len: "length (map image_name ?names) = min k 3"
      using assms by (simp add: min.commute)
    have "visualize_data L df w = (Inr (map image_name ?names), snd ?r)"
      using vd ret by (metis prod.collapse)
    with len imgs saved show ?thesis by metis
  qed
  have raises: "\<exists>e w'. visualize_data L df w = (Inl e, w')"
    if bad: "\<exists>c \<in> set (take 3 ?num). savefig_error L (cname c @ ''_distribution.png'') \<noteq> None"
  proof -
    from bad names have "\<exists>n\<in>set ?names. savefig_error L (image_name n) \<noteq> None"
      by (auto simp: image_name_def)
    from visualize_loop_raises [OF this, of df "[]" w]
    obtain e where "fst ?r = Inl e" ..
    with vd have "visualize_data L df w = (Inl e, snd ?r)"
      by (metis prod.collapse)
    then show ?thesis by blast
  qed
  from returns raises show ?thesis by blast
qed

theorem visualize_data_count_witness:
  "(4::nat) = length (filter (\<lambda>c. is_number (dtype c)) (columns demo_df))
   \<and> savefig_error demo_lib ''age_distribution.png'' = None
   \<and> savefig_error demo_lib ''score_distribution.png'' = None
   \<and> savefig_error demo_lib ''h_distribution.png'' = None
   \<and> (\<exists>w'. visualize_data demo_lib demo_df demo_world =
         (Inr [''age_distribution.png'', ''score_distribution.png'', ''h_distribution.png''], w'))
   \<and> savefig_error demo_lib ''a/b_distribution.png'' \<noteq> None
   \<and> (\<exists>e w'. visualize_data demo_lib slash_df demo_world = (Inl e, w'))"
proof -
  have k: "(4::nat) = length (filter (\<lambda>c. is_number (dtype c)) (columns demo_df))"
    by (simp add: demo_df_def is_number_def)
  have names: "map (\<lambda>c. cname c @ ''_distribution.png'')
                (take 3 (filter (\<lambda>c. is_number (dtype c)) (columns demo_df)))
        = [''age_distribution.png'', ''score_distribution.png'', ''h_distribution.png'']"
    by (simp add: demo_df_def is_number_def)
  have ok: "\<forall>c \<in> set (take 3 (filter (\<lambda>c. is_number (dtype c)) (columns demo_df))).
         savefig_error demo_lib (cname c @ ''_distribution.png'') = None"
    using demo_chart_names by (simp add: demo_df_def is_number_def demo_lib_def)
  have bad: "\<exists>c \<in> set (take 3 (filter (\<lambda>c. is_number (dtype c)) (columns slash_df))).
         savefig_error demo_lib (cname c @ ''_distribution.png'') \<noteq> None"
    by (simp add: slash_df_def is_number_def demo_lib_def no_subdirectory_def dirname_def)
  from visualize_data_count [OF k, of demo_lib demo_world] ok names
  have one: "\<exists>w'. visualize_data demo_lib demo_df demo_world =
         (Inr [''age_distribution.png'', ''score_distribution.png'', ''h_distribution.png''], w')"
    by metis
  from visualize_data_count [OF refl, of slash_df demo_lib demo_world] bad
  have two: "\<exists>e w'. visualize_data demo_lib slash_df demo_world = (Inl e, w')"
    by blast
  have files_ok: "savefig_error demo_lib ''age_distribution.png'' = None"
    "savefig_error demo_lib ''score_distribution.png'' = None"
    "savefig_error demo_lib ''h_distribution.png'' = None"
    using demo_chart_names by (simp_all add: demo_lib_def)
  have file_bad: "savefig_error demo_lib ''a/b_distribution.png'' \<noteq> None"
    by (simp add: demo_lib_def no_subdirectory_def dirname_def)
  from k files_ok one file_bad two show ?thesis by blast
qed

theorem visualize_data_count_counterexample:
  "visualize_data demo_lib slash_df demo_world =
     (Inl (Exception ''FileNotFoundError''
            (''[Errno 2] No such file or directory: '' @ quote @ ''a/b_distribution.png'' @ quote)),
      \<lparr> files = (files demo_world)(''c_distribution.png'' \<mapsto> ''Distribution of c: **''),
        stdout = [] \<rparr>)"
  by (simp add: visualize_data_def select_dtypes_number_def slash_df_def is_number_def
      getitem_column_def dropna_def is_na_def image_name_def savefig_def demo_lib_def
      no_subdirectory_def dirname_def fwrite_def open_w_def demo_world_def Let_def)




section \<open>The fatal exits of the pipeline\<close>



text \<open>
  Claim C5.  When the file loads to a dataset with zero rows, \<^verbatim>\<open>main\<close> prints the
  diagnostic \<^verbatim>\<open>Error: Dataset is empty. Exiting.\<close> and exits with status 1, and the files
  of the working directory are those of the start: neither \<^verbatim>\<open>README.md\<close> nor any chart
  is written.  The same holds for the whole script invoked with that path.
\<close>

theorem main_empty_dataset:
  assumes "isfile w file_path"
    and "load_data L file_path w = (Inr df, w1)"
    and "index_len df = 0"
  shows "main L token file_path w =
           (Inl (SystemExit 1), print ''Error: Dataset is empty. Exiting.'' w)
     \<and> exit_code (fst (main L token file_path w)) \<noteq> 0
     \<and> files (snd (main L token file_path w)) = files w
     \<and> (\<forall>environ prog.
          exit_code (fst (script L environ [prog, file_path] w)) \<noteq> 0
          \<and> files (snd (script L environ [prog, file_path] w)) = files w
          \<and> (\<exists>line. stdout (snd (script L environ [prog, file_path] w)) = stdout w @ [line]))"
proof -
  from assms(2) have w1: "w1 = w" by (rule load_data_world)
  have m: "\<And>token. main L token file_path w =
           (Inl (SystemExit 1), print ''Error: Dataset is empty. Exiting.'' w)"
    using assms w1 by (simp add: main_def empty_df_def)
  have s: "\<And>environ prog. \<exists>line. script L environ [prog, file_path] w = (Inl (SystemExit 1), print line w)"
    by (auto simp: script_def m split: option.splits)
  have "\<And>environ prog.
          exit_code (fst (script L environ [prog, file_path] w)) \<noteq> 0
          \<and> files (snd (script L environ [prog, file_path] w)) = files w
          \<and> (\<exists>line. stdout (snd (script L environ [prog, file_path] w)) = stdout w @ [line])"
  proof -
    fix environ prog
    from s [of environ prog] obtain line
      where "script L environ [prog, file_path] w = (Inl (SystemExit 1), print line w)" ..
    then show "exit_code (fst (script L environ [prog, file_path] w)) \<noteq> 0
          \<and> files (snd (script L environ [prog, file_path] w)) = files w
          \<and> (\<exists>line. stdout (snd (script L environ [prog, file_path] w)) = stdout w @ [line])"
      by (simp add: exit_code_def files_print stdout_print)
  qed
  with m show ?thesis
    by (simp add: exit_code_def files_print)
qed

theorem main_empty_dataset_witness:
  "isfile demo_world ''header.csv''
   \<and> load_data demo_lib ''header.csv'' demo_world = (Inr header_only_df, demo_world)
   \<and> index_len header_only_df = 0
   \<and> main demo_lib ''secret'' ''header.csv'' demo_world =
        (Inl (SystemExit 1), demo_world\<lparr>stdout := [''Error: Dataset is empty. Exiting.'']\<rparr>)
   \<and> files (snd (main demo_lib ''secret'' ''header.csv'' demo_world)) ''README.md'' = None"
proof -
  have f: "isfile demo_world ''header.csv''"
    by (simp add: isfile_def demo_world_def)
  have l: "load_data demo_lib ''header.csv'' demo_world = (Inr header_only_df, demo_world)"
    by (simp add: load_data_def demo_world_def demo_lib_def)
  have z: "index_len header_only_df = 0"
    by (simp add: header_only_df_def)
  from main_empty_dataset [OF f l z, of "''secret''"] f l z
  show ?thesis
    by (simp add: print_def demo_world_def)
qed

section \<open>The narrative client and the report writer\<close>

text \<open>
  Claim C1.  The claim: whenever the narrative request fails (transport error, non-success
  status, malformed response body) the narrative becomes an error string and the report is
  written in full.  That is what happens whenever the request, the status check or the
  extraction of \<^verbatim>\<open>choices[0].message.content\<close> raises (\<open>generate_story_request_raises\<close>,
  with \<open>request_story_transport_error\<close>, \<open>request_story_bad_status\<close>,
  \<open>request_story_bad_body\<close> and \<open>request_story_no_choices\<close> for the kinds of failure).
  A body of the expected shape whose content is not text, \<^verbatim>\<open>null\<close> or a number, raises
  nothing inside the \<^verbatim>\<open>try\<close> block: the narrative is that value, and
  \<^verbatim>\<open>narrative + "\n\n"\<close> then raises a TypeError outside the block, after the file was
  opened and its first two lines written.  The call ends with an uncaught exception and
  \<^verbatim>\<open>README.md\<close> holds the title and the Story heading only, with neither an error
  string nor a Visualizations section.
\<close>

theorem story_content_not_text_aborts:
  "generate_story_and_readme
       (L\<lparr>post := (\<lambda>url headers data timeout. Inr (content_response PNone))\<rparr>)
       token a image_files w =
     (Inl (Exception ''TypeError''
            (''unsupported operand type(s) for +: '' @ quote @ ''NoneType'' @ quote
              @ '' and '' @ quote @ ''str'' @ quote)),
      w\<lparr>files := (files w)(''README.md'' \<mapsto> ''# Dataset Analysis'' @ nl @ nl @ ''## Story'' @ nl)\<rparr>)
   \<and> generate_story_and_readme
       (L\<lparr>post := (\<lambda>url headers data timeout. Inr (content_response (PInt 42)))\<rparr>)
       token a image_files w =
     (Inl (Exception ''TypeError''
            (''unsupported operand type(s) for +: '' @ quote @ ''int'' @ quote
              @ '' and '' @ quote @ ''str'' @ quote)),
      w\<lparr>files := (files w)(''README.md'' \<mapsto> ''# Dataset Analysis'' @ nl @ nl @ ''## Story'' @ nl)\<rparr>)"
  by (simp add: generate_story_and_readme_def fetch_narrative_def request_story_def
      content_response_def raise_for_status_def bind_def write_readme_def add_str_def
      type_name_def fwrite_text_def encode_text_def is_ascii_def fwrite_def open_w_def Let_def)

text \<open>
  Claim C10, as amended.  For a dataset that is not empty and has no numeric column,
  \<^verbatim>\<open>visualize_data\<close> returns the empty list and writes nothing.  When the narrative is
  text (a story or an error string) that the platform's encoding can write, \<^verbatim>\<open>main\<close>
  returns normally: \<^verbatim>\<open>README.md\<close> holds the title, the Story section with the narrative
  and the \<^verbatim>\<open>## Visualizations\<close> heading followed by no image reference, no other file
  changes, and the success line is printed.  When the text cannot be encoded, the error of
  \<^verbatim>\<open>f.write\<close> leaves \<^verbatim>\<open>main\<close> and \<^verbatim>\<open>README.md\<close> holds the title and the Story heading
  only.  A narrative that is not text is the case of claim C1.
\<close>

theorem no_numeric_columns_report:
  assumes "isfile w file_path"
    and "load_data L file_path w = (Inr df, w1)"
    and "\<not> empty_df df"
    and "filter (\<lambda>c. is_number (dtype c)) (columns df) = []"
    and "analyze_data L df w1 = (Inr a, w2)"
    and "fetch_narrative L token a = Inr (PStr story)"
  shows "visualize_data L df w2 = (Inr [], w2)
     \<and> (\<forall>bytes. encode_text L (story @ nl @ nl) = Inr bytes \<longrightarrow>
          main L token file_path w =
            (Inr (),
             w\<lparr>files := (files w)(''README.md'' \<mapsto>
                   ''# Dataset Analysis'' @ nl @ nl @ ''## Story'' @ nl @ bytes
                   @ ''## Visualizations'' @ nl),
               stdout := stdout w @ [''README.md and visualizations created successfully!'']\<rparr>))
     \<and> (\<forall>e. encode_text L (story @ nl @ nl) = Inl e \<longrightarrow>
          main L token file_path w =
            (Inl e,
             w\<lparr>files := (files w)(''README.md'' \<mapsto>
                   ''# Dataset Analysis'' @ nl @ nl @ ''## Story'' @ nl)\<rparr>))"
proof -
  have v: "visualize_data L df w2 = (Inr [], w2)"
    using assms(4) by (rule visualize_data_no_numeric)
  have m: "main L token file_path w =
     (case write_readme L (PStr story) [] w of
        (Inl e, w4) \<Rightarrow> (Inl e, w4)
      | (Inr _, w4) \<Rightarrow>
          (Inr (), print ''README.md and visualizations created successfully!'' w4))"
    using main_text_report [OF assms(1-5), of token] assms(6)
    by (simp add: generate_story_and_readme_def)
  have good: "main L token file_path w =
            (Inr (),
             w\<lparr>files := (files w)(''README.md'' \<mapsto>
                   ''# Dataset Analysis'' @ nl @ nl @ ''## Story'' @ nl @ bytes
                   @ ''## Visualizations'' @ nl),
               stdout := stdout w @ [''README.md and visualizations created successfully!'']\<rparr>)"
    if "encode_text L (story @ nl @ nl) = Inr bytes" for bytes
    unfolding m write_readme_text [OF that] by (simp add: print_def)
  have bad: "main L token file_path w =
            (Inl e,
             w\<lparr>files := (files w)(''README.md'' \<mapsto>
                   ''# Dataset Analysis'' @ nl @ nl @ ''## Story'' @ nl)\<rparr>)"
    if "encode_text L (story @ nl @ nl) = Inl e" for e
    unfolding m write_readme_text_raises [OF that] by simp
  from v good bad show ?thesis by blast
qed

theorem no_numeric_columns_report_witness:
  "isfile demo_world ''text.csv''
   \<and> load_data demo_lib ''text.csv'' demo_world = (Inr text_df, demo_world)
   \<and> \<not> empty_df text_df
   \<and> filter (\<lambda>c. is_number (dtype c)) (columns text_df) = []
   \<and> encode_text demo_lib (''Error generating story: connection refused'' @ nl @ nl)
        = Inr (''Error generating story: connection refused'' @ nl @ nl)
   \<and> visualize_data demo_lib text_df demo_world = (Inr [], demo_world)
   \<and> main demo_lib ''secret'' ''text.csv'' demo_world =
        (Inr (),
         demo_world\<lparr>files := (files demo_world)(''README.md'' \<mapsto>
               ''# Dataset Analysis'' @ nl @ nl @ ''## Story'' @ nl
               @ ''Error generating story: connection refused'' @ nl @ nl
               @ ''## Visualizations'' @ nl),
           stdout := [''README.md and visualizations created successfully!'']\<rparr>)"
proof -
  let ?a = "\<lparr> summary = describe_all demo_lib text_df, missing_values = isnull_sum text_df,
              correlation = [] \<rparr>"
  let ?story = "''Error generating story: '' @ ''connection refused''"
  have f: "isfile demo_world ''text.csv''"
    by (simp add: isfile_def demo_world_def)
  have e: "\<not> empty_df text_df"
    by (simp add: empty_df_def text_df_def)
  have n: "filter (\<lambda>c. is_number (dtype c)) (columns text_df) = []"
    by (simp add: text_df_def is_number_def)
  have an: "analyze_data demo_lib text_df demo_world = (Inr ?a, demo_world)"
    by (simp add: analyze_data_def Let_def select_dtypes_number_def n)
  have p: "post demo_lib = (\<lambda>url headers data timeout.
             Inl (Exception ''ConnectError'' ''connection refused''))"
    by (simp add: demo_lib_def)
  have s: "fetch_narrative demo_lib ''secret'' ?a = Inr (PStr ?story)"
    by (simp add: fetch_narrative_def request_story_def bind_def p Let_def)
  have enc: "encode_text demo_lib (?story @ nl @ nl) = Inr (?story @ nl @ nl)"
    by (simp add: encode_text_def is_ascii_def)
  have d: "stdout demo_world = []"
    by (simp add: demo_world_def)
  from no_numeric_columns_report [OF f text_load e n an s] enc f text_load e n d
  show ?thesis by simp
qed

theorem no_numeric_columns_report_counterexample:
  "main null_story_lib ''secret'' ''text.csv'' demo_world =
     (Inl (Exception ''TypeError''
            (''unsupported operand type(s) for +: '' @ quote @ ''NoneType'' @ quote
              @ '' and '' @ quote @ ''str'' @ quote)),
      \<lparr> files = (files demo_world)(''README.md'' \<mapsto>
                  ''# Dataset Analysis'' @ nl @ nl @ ''## Story'' @ nl),
        stdout = [] \<rparr>)
   \<and> main accent_story_lib ''secret'' ''text.csv'' demo_world =
     (Inl (Exception ''UnicodeEncodeError''
            (quote @ ''ascii'' @ quote @ '' codec can'' @ quote @ ''t encode character ''
             @ quote @ [CHR 0x5C] @ ''xe9'' @ quote
             @ '' in position 3: ordinal not in range(128)'')),
      \<lparr> files = (files demo_world)(''README.md'' \<mapsto>
                  ''# Dataset Analysis'' @ nl @ nl @ ''## Story'' @ nl),
        stdout = [] \<rparr>)"
proof -
  have f: "isfile demo_world ''text.csv''"
    by (simp add: isfile_def demo_world_def)
  have e: "\<not> empty_df text_df"
    by (simp add: empty_df_def text_df_def)
  have n: "filter (\<lambda>c. is_number (dtype c)) (columns text_df) = []"
    by (simp add: text_df_def is_number_def)
  have l1: "load_data null_story_lib ''text.csv'' demo_world = (Inr text_df, demo_world)"
    by (simp add: load_data_def demo_world_def null_story_lib_def demo_lib_def
        text_csv_def header_csv_def)
  have l2: "load_data accent_story_lib ''text.csv'' demo_world = (Inr text_df, demo_world)"
    by (simp add: load_data_def demo_world_def accent_story_lib_def demo_lib_def
        text_csv_def header_csv_def)
  have a1: "analyze_data null_story_lib text_df demo_world =
      (Inr \<lparr> summary = describe_all null_story_lib text_df,
             missing_values = isnull_sum text_df, correlation = [] \<rparr>, demo_world)"
    by (simp add: analyze_data_def Let_def select_dtypes_number_def n)
  have a2: "analyze_data accent_story_lib text_df demo_world =
      (Inr \<lparr> summary = describe_all accent_story_lib text_df,
             missing_values = isnull_sum text_df, correlation = [] \<rparr>, demo_world)"
    by (simp add: analyze_data_def Let_def select_dtypes_number_def n)
  have g1: "generate_story_and_readme null_story_lib ''secret''
       \<lparr> summary = describe_all null_story_lib text_df,
         missing_values = isnull_sum text_df, correlation = [] \<rparr> [] demo_world =
     (Inl (Exception ''TypeError''
            (''unsupported operand type(s) for +: '' @ quote @ ''NoneType'' @ quote
              @ '' and '' @ quote @ ''str'' @ quote)),
      \<lparr> files = (files demo_world)(''README.md'' \<mapsto>
                  ''# Dataset Analysis'' @ nl @ nl @ ''## Story'' @ nl),
        stdout = [] \<rparr>)"
    by (simp add: generate_story_and_readme_def fetch_narrative_def request_story_def
      null_story_lib_def content_response_def raise_for_status_def bind_def write_readme_def
      add_str_def type_name_def fwrite_text_def encode_text_def is_ascii_def fwrite_def
      open_w_def demo_world_def Let_def)
  have fn: "fetch_narrative accent_story_lib ''secret''
       \<lparr> summary = describe_all accent_story_lib text_df,
         missing_values = isnull_sum text_df, correlation = [] \<rparr> = Inr (PStr accent_story)"
    by (simp add: fetch_narrative_def request_story_def accent_story_lib_def
        content_response_def raise_for_status_def bind_def Let_def)
  have enc: "encode_text accent_story_lib (accent_story @ nl @ nl) =
     Inl (Exception ''UnicodeEncodeError''
            (quote @ ''ascii'' @ quote @ '' codec can'' @ quote @ ''t encode character ''
             @ quote @ [CHR 0x5C] @ ''xe9'' @ quote
             @ '' in position 3: ordinal not in range(128)''))"
    by (simp add: encode_text_def accent_story_def is_ascii_def accent_story_lib_def
        ascii_encode_def)
  have g2: "generate_story_and_readme accent_story_lib ''secret''
       \<lparr> summary = describe_all accent_story_lib text_df,
         missing_values = isnull_sum text_df, correlation = [] \<rparr> [] demo_world =
     (Inl (Exception ''UnicodeEncodeError''
            (quote @ ''ascii'' @ quote @ '' codec can'' @ quote @ ''t encode character ''
             @ quote @ [CHR 0x5C] @ ''xe9'' @ quote
             @ '' in position 3: ordinal not in range(128)'')),
      \<lparr> files = (files demo_world)(''README.md'' \<mapsto>
                  ''# Dataset Analysis'' @ nl @ nl @ ''## Story'' @ nl),
        stdout = [] \<rparr>)"
    unfolding generate_story_and_readme_def fn
    by (simp add: write_readme_text_raises [OF enc] demo_world_def)
  show ?thesis
    unfolding main_text_report [OF f l1 e n a1] main_text_report [OF f l2 e n a2] g1 g2
    by simp
qed

end
